theory Spec2Isabelle
  imports Complex_Main
begin

section \<open>JavaScript containers and values used by app.ts\<close>

text \<open>
  A JavaScript \<open>Map\<close> keeps its entries in insertion order. \<open>set\<close> on a key that is
  already there replaces the value in place; on a new key it appends the entry. \<open>get\<close>
  returns the value or \<open>undefined\<close> (here \<open>None\<close>); \<open>delete\<close> removes the entry and is
  silent when there is none; \<open>keys\<close> lists the keys in insertion order.
\<close>

type_synonym ('k, 'v) js_map = "('k \<times> 'v) list"

fun js_set :: "('k, 'v) js_map \<Rightarrow> 'k \<Rightarrow> 'v \<Rightarrow> ('k, 'v) js_map" where
  "js_set [] k v = [(k, v)]"
| "js_set ((k', v') # m) k v = (if k' = k then (k, v) # m else (k', v') # js_set m k v)"

definition js_get :: "('k, 'v) js_map \<Rightarrow> 'k \<Rightarrow> 'v option" where
  "js_get m k = map_of m k"

definition js_delete :: "('k, 'v) js_map \<Rightarrow> 'k \<Rightarrow> ('k, 'v) js_map" where
  "js_delete m k = filter (\<lambda>p. fst p \<noteq> k) m"

definition js_keys :: "('k, 'v) js_map \<Rightarrow> 'k list" where
  "js_keys m = map fst m"

text \<open>
  Truthiness of an optional string, as tested by \<open>err.message || ...\<close>: \<open>undefined\<close>
  (\<open>None\<close>) and the empty string are falsy, every other string is truthy.
\<close>

definition truthy :: "string option \<Rightarrow> bool" where
  "truthy v = (case v of None \<Rightarrow> False | Some s \<Rightarrow> s \<noteq> [])"

text \<open>
  The string held by an optional string. The handler reads it only after the value
  has been found truthy.
\<close>

definition string_value :: "string option \<Rightarrow> string" where
  "string_value v = (case v of None \<Rightarrow> ''undefined'' | Some s \<Rightarrow> s)"

text \<open>
  The values a field of a parsed JSON body can hold, and \<open>undefined\<close> for a field that
  is absent. A number is a double: a finite value (\<open>-0\<close> is the finite value 0), an
  infinity or \<open>NaN\<close>.
\<close>

datatype js_number = Finite real | PlusInfinity | MinusInfinity | NaN

datatype js_value =
    JUndefined
  | JNull
  | JBool bool
  | JNum js_number
  | JStr string
  | JArr "js_value list"
  | JObj "(string \<times> js_value) list"

text \<open>
  Truthiness of a value, as tested by \<open>!x\<close> and \<open>if (x)\<close>: \<open>undefined\<close>, \<open>null\<close>,
  \<open>false\<close>, the numbers \<open>0\<close>, \<open>-0\<close> and \<open>NaN\<close> and the empty string are falsy; every
  other value, arrays and objects included, is truthy.
\<close>

definition js_truthy :: "js_value \<Rightarrow> bool" where
  "js_truthy v =
     (case v of
        JUndefined \<Rightarrow> False
      | JNull \<Rightarrow> False
      | JBool b \<Rightarrow> b
      | JNum n \<Rightarrow> (case n of Finite x \<Rightarrow> x \<noteq> 0 | NaN \<Rightarrow> False | _ \<Rightarrow> True)
      | JStr s \<Rightarrow> s \<noteq> []
      | JArr _ \<Rightarrow> True
      | JObj _ \<Rightarrow> True)"

text \<open>The falsy values, listed one by one.\<close>

definition falsy_values :: "js_value set" where
  "falsy_values = {JUndefined, JNull, JBool False, JNum (Finite 0), JNum NaN, JStr []}"

text \<open>
  \<open>Map.get\<close> with a key of any type on a map whose keys are strings: keys are compared
  without conversion, so a key that is not a string finds nothing.
\<close>

definition js_get_any :: "(string, 'v) js_map \<Rightarrow> js_value \<Rightarrow> 'v option" where
  "js_get_any m key = (case key of JStr k \<Rightarrow> js_get m k | _ \<Rightarrow> None)"

text \<open>
  A template literal renders a number that holds a natural number in decimal. The
  counter of app.ts starts at 0 and only grows by \<open>count++\<close>; it is modelled as a
  natural number (a JavaScript number is exact on such values below \<open>2^53\<close>).
\<close>

fun string_of_nat :: "nat \<Rightarrow> string" where
  "string_of_nat n =
     (if n < 10 then [''0123456789'' ! n]
      else string_of_nat (n div 10) @ [''0123456789'' ! (n mod 10)])"

declare string_of_nat.simps [simp del]

section \<open>Data model\<close>

text \<open>\<open>interface ConversationState { count: number }\<close>\<close>

record ConversationState =
  count :: nat

text \<open>
  The types imported from the Teams SDK, with the fields app.ts reads:
  \<open>conversation.id\<close>, \<open>conversation.conversationType\<close> and \<open>serviceUrl\<close>. Every
  other field is kept, uninterpreted, in \<open>account_other\<close> and \<open>ref_other\<close>.
\<close>

record ConversationAccount =
  conv_id :: string
  conversationType :: "string option"
  account_other :: string

record ConversationReference =
  conversation :: ConversationAccount
  serviceUrl :: string
  ref_other :: string

record Activity =
  activity_conversation :: ConversationAccount
  activity_other :: string

text \<open>The handler context: \<open>context.activity\<close> and \<open>context.ref\<close>.\<close>

record Context =
  activity :: Activity
  ref :: ConversationReference

text \<open>
  Objects live in a store and are named by their address, so that two names of one
  object see each other's writes. \<open>heap\<close> holds the \<open>ConversationState\<close> objects made
  by \<open>{ count: 0 }\<close>; a new object takes the next address.

  \<open>storage\<close> is \<open>const storage = new LocalStorage()\<close> and \<open>conversationReferences\<close> is
  \<open>new Map<string, ConversationReference>()\<close>. References are never written to after
  they are made, so the registry holds them as values.
\<close>

type_synonym addr = nat

record BotState =
  heap :: "ConversationState list"
  storage :: "(string, addr) js_map"
  conversationReferences :: "(string, ConversationReference) js_map"

definition initial_state :: BotState where
  "initial_state = \<lparr>heap = [], storage = [], conversationReferences = []\<rparr>"

text \<open>
  Modelled from the spec: \<open>LocalStorage\<close> is imported from @microsoft/teams.common and
  is not part of app.ts. It is the volatile in-memory key-value store of the
  ConversationStateStore: \<open>get\<close> returns the value stored under the key or nothing,
  \<open>set\<close> stores the given value itself (the object, not a copy) and \<open>delete\<close> removes
  the key, without an error when it is absent.
\<close>

definition storage_get :: "BotState \<Rightarrow> string \<Rightarrow> addr option" where
  "storage_get s k = js_get (storage s) k"

definition storage_set :: "BotState \<Rightarrow> string \<Rightarrow> addr \<Rightarrow> BotState" where
  "storage_set s k a = s\<lparr>storage := js_set (storage s) k a\<rparr>"

definition storage_delete :: "BotState \<Rightarrow> string \<Rightarrow> BotState" where
  "storage_delete s k = s\<lparr>storage := js_delete (storage s) k\<rparr>"

text \<open>
  What the message handler takes from outside app.ts: \<open>stripMentionsText\<close> of the
  SDK, \<open>JSON.stringify(activity)\<close> and \<open>JSON.stringify(process.version)\<close>.
\<close>

record Platform =
  stripMentionsText :: "Activity \<Rightarrow> string"
  stringify_activity :: "Activity \<Rightarrow> string"
  stringify_version :: string

section \<open>Inbound events\<close>

text \<open>\<open>app.on("install.add", ...)\<close>: stores the reference and sends nothing.\<close>

definition on_install_add :: "Context \<Rightarrow> BotState \<Rightarrow> string list \<times> BotState" where
  "on_install_add context s =
     ([], s\<lparr>conversationReferences :=
              js_set (conversationReferences s)
                (conv_id (activity_conversation (activity context))) (ref context)\<rparr>)"

text \<open>
  \<open>getConversationState\<close>: returns the object stored under the conversation id; when
  there is none it makes \<open>{ count: 0 }\<close>, stores it and returns it. The result is the
  address of the object, together with the state after the call.
\<close>

definition getConversationState :: "string \<Rightarrow> BotState \<Rightarrow> addr \<times> BotState" where
  "getConversationState conversationId s =
     (case storage_get s conversationId of
        Some state \<Rightarrow> (state, s)
      | None \<Rightarrow>
          (let state = length (heap s);
               s' = s\<lparr>heap := heap s @ [\<lparr>count = 0\<rparr>]\<rparr>
           in (state, storage_set s' conversationId state)))"

text \<open>\<open>state.count\<close> and \<open>state.count++\<close> on the object at an address.\<close>

definition read_count :: "BotState \<Rightarrow> addr \<Rightarrow> nat" where
  "read_count s a = count (heap s ! a)"

definition increment_count :: "BotState \<Rightarrow> addr \<Rightarrow> BotState" where
  "increment_count s a = s\<lparr>heap := (heap s)[a := (heap s ! a)\<lparr>count := count (heap s ! a) + 1\<rparr>]\<rparr>"

text \<open>
  \<open>app.on("message", ...)\<close>. The result is the list of texts passed to
  \<open>context.send\<close> and the state after the handler.
\<close>

definition on_message :: "Platform \<Rightarrow> Context \<Rightarrow> BotState \<Rightarrow> string list \<times> BotState" where
  \<open>on_message P context s0 =
     (let act = activity context;
          cid = conv_id (activity_conversation act);
          s = s0\<lparr>conversationReferences :=
                  js_set (conversationReferences s0) cid (ref context)\<rparr>;
          text = stripMentionsText P act
      in if text = ''/reset'' then
           ([''Ok I've deleted the current conversation state.''], storage_delete s cid)
         else if text = ''/count'' then
           (case getConversationState cid s of
              (state, s') \<Rightarrow> ([''The count is '' @ string_of_nat (read_count s' state)], s'))
         else if text = ''/diag'' then
           ([stringify_activity P act], s)
         else if text = ''/state'' then
           (case getConversationState cid s of
              (state, s') \<Rightarrow>
                ([''{"count":'' @ string_of_nat (read_count s' state) @ ''}''], s'))
         else if text = ''/runtime'' then
           ([''{"nodeversion":'' @ stringify_version P @ '',"sdkversion":"2.0.0"}''], s)
         else
           (case getConversationState cid s of
              (state, s') \<Rightarrow>
                (let s'' = increment_count s' state
                 in ([''['' @ string_of_nat (read_count s'' state) @ ''] you said: '' @ text],
                     s''))))\<close>

datatype Event = InstallAdd Context | Message Context

fun event_conversation :: "Event \<Rightarrow> string" where
  "event_conversation (InstallAdd context) = conv_id (activity_conversation (activity context))"
| "event_conversation (Message context) = conv_id (activity_conversation (activity context))"

fun event_ref :: "Event \<Rightarrow> ConversationReference" where
  "event_ref (InstallAdd context) = ref context"
| "event_ref (Message context) = ref context"

fun handle_event :: "Platform \<Rightarrow> Event \<Rightarrow> BotState \<Rightarrow> string list \<times> BotState" where
  "handle_event P (InstallAdd context) s = on_install_add context s"
| "handle_event P (Message context) s = on_message P context s"

text \<open>The events are handled one after the other; the replies are dropped here.\<close>

fun run :: "Platform \<Rightarrow> Event list \<Rightarrow> BotState \<Rightarrow> BotState" where
  "run P [] s = s"
| "run P (e # es) s = run P es (snd (handle_event P e s))"

section \<open>Proactive messaging API\<close>

text \<open>
  The body of \<open>POST /api/notify\<close>. The handler reads it from \<open>req: any\<close>, so
  \<open>conversationId\<close>, \<open>message\<close> and \<open>replyToId\<close> hold any value, \<open>undefined\<close> when the
  field is absent. \<open>mentions\<close> is \<open>Some\<close> of its items when it is an array (the test
  \<open>Array.isArray(mentions)\<close>), with the item type the handler declares for them,
  \<open>{ id: string; name: string }\<close>, and \<open>None\<close> otherwise. A request without a body is read
  as \<open>{}\<close> (\<open>req.body || {}\<close>).
\<close>

record MentionEntity =
  mention_id :: string
  mention_name :: string

record NotifyBody =
  conversationId :: js_value
  message :: js_value
  replyToId :: js_value
  mentions :: "MentionEntity list option"

definition empty_body :: NotifyBody where
  "empty_body =
     \<lparr>conversationId = JUndefined, message = JUndefined, replyToId = JUndefined, mentions = None\<rparr>"

record Entity =
  entity_type :: string
  entity_text :: string
  mentioned :: MentionEntity

record ActivityParams =
  params_other :: string
  entities :: "Entity list option"

text \<open>What \<open>app.http.send\<close> returns (\<open>result.id\<close>) or throws (\<open>err.message\<close>).\<close>

record SentActivity =
  sent_id :: string

record JsError =
  err_message :: "string option"

text \<open>
  What the handler takes from outside app.ts: \<open>toActivityParams\<close> of the SDK, which
  builds the payload from the message, the send primitive \<open>app.http.send\<close>, which
  returns the sent activity or throws, and the text that a template literal gives for
  a number, an array or an object.
\<close>

record Channel =
  toActivityParams :: "js_value \<Rightarrow> ActivityParams"
  send :: "ActivityParams \<Rightarrow> ConversationReference \<Rightarrow> JsError + SentActivity"
  render_other :: "js_value \<Rightarrow> string"

text \<open>
  The text of a value inside a template literal: a string is itself, \<open>undefined\<close>,
  \<open>null\<close>, \<open>true\<close> and \<open>false\<close> are their names.
\<close>

definition template_string :: "Channel \<Rightarrow> js_value \<Rightarrow> string" where
  "template_string C v =
     (case v of
        JStr s \<Rightarrow> s
      | JUndefined \<Rightarrow> ''undefined''
      | JNull \<Rightarrow> ''null''
      | JBool b \<Rightarrow> (if b then ''true'' else ''false'')
      | _ \<Rightarrow> render_other C v)"

datatype ResponseBody =
    ErrorBody string
  | NotFoundBody string "string list"
  | SentBody string string

record Response =
  status :: nat
  body :: ResponseBody

text \<open>The result of a request: the response, and the calls made to the send primitive.\<close>

record Outcome =
  response :: Response
  sends :: "(ActivityParams \<times> ConversationReference) list"
  state_after :: BotState

text \<open>
  The mention entities: when \<open>mentions\<close> is a non-empty array, \<open>activityParams.entities\<close>
  is set to one entity per item; otherwise the payload is left as it was built.
\<close>

definition mention_entity :: "MentionEntity \<Rightarrow> Entity" where
  "mention_entity m =
     \<lparr>entity_type = ''mention'',
      entity_text = ''<at>'' @ mention_name m @ ''</at>'',
      mentioned = \<lparr>mention_id = mention_id m, mention_name = mention_name m\<rparr>\<rparr>"

definition with_mentions :: "ActivityParams \<Rightarrow> MentionEntity list option \<Rightarrow> ActivityParams" where
  "with_mentions activityParams ms =
     (case ms of
        Some (m # ms') \<Rightarrow> activityParams\<lparr>entities := Some (map mention_entity (m # ms'))\<rparr>
      | _ \<Rightarrow> activityParams)"

text \<open>
  The threaded reply. The handler builds a new object with the spread syntax,
  \<open>{ ...ref, conversation: { ...ref.conversation, id: `${ref.conversation.id};messageid=${replyToId}` } }\<close>:
  a copy of \<open>ref\<close> in which \<open>conversation\<close> is a copy of \<open>ref.conversation\<close> with a new
  \<open>id\<close>. No statement of app.ts assigns to a field of a reference. The guard is
  \<open>if (replyToId)\<close>; without a truthy \<open>replyToId\<close> the cached \<open>ref\<close> itself is passed on.
\<close>

definition threadRef :: "ConversationReference \<Rightarrow> string \<Rightarrow> ConversationReference" where
  "threadRef r rid =
     r\<lparr>conversation := (conversation r)\<lparr>conv_id := conv_id (conversation r) @ '';messageid='' @ rid\<rparr>\<rparr>"

definition target_ref :: "Channel \<Rightarrow> ConversationReference \<Rightarrow> js_value \<Rightarrow> ConversationReference" where
  "target_ref C r rid = (if js_truthy rid then threadRef r (template_string C rid) else r)"

text \<open>
  The call of the send primitive inside \<open>try\<close>: on a result the response is
  \<open>res.json({ status: "sent", activityId: result.id })\<close> (status 200); on a thrown error
  it is \<open>res.status(500).json({ error: err.message || "Failed to send message" })\<close>.
\<close>

definition deliver :: "Channel \<Rightarrow> ActivityParams \<Rightarrow> ConversationReference \<Rightarrow> Response" where
  "deliver C activityParams r =
     (case send C activityParams r of
        Inr result \<Rightarrow> \<lparr>status = 200, body = SentBody ''sent'' (sent_id result)\<rparr>
      | Inl err \<Rightarrow>
          \<lparr>status = 500,
           body = ErrorBody (if truthy (err_message err) then string_value (err_message err)
                             else ''Failed to send message'')\<rparr>)"

text \<open>
  \<open>app.http.post("/api/notify", ...)\<close>: validation, lookup in the registry, then the
  payload, the target reference and the one call of the send primitive. The handler
  writes to neither the registry nor the storage.
\<close>

definition api_notify :: "Channel \<Rightarrow> NotifyBody option \<Rightarrow> BotState \<Rightarrow> Outcome" where
  "api_notify C req s =
     (let b = (case req of None \<Rightarrow> empty_body | Some b \<Rightarrow> b)
      in if \<not> js_truthy (conversationId b) \<or> \<not> js_truthy (message b) then
           \<lparr>response = \<lparr>status = 400, body = ErrorBody ''conversationId and message are required''\<rparr>,
            sends = [], state_after = s\<rparr>
         else
           (case js_get_any (conversationReferences s) (conversationId b) of
              None \<Rightarrow>
                \<lparr>response =
                   \<lparr>status = 404,
                    body = NotFoundBody
                      ''Conversation not found. The bot must receive a message from this conversation first.''
                      (js_keys (conversationReferences s))\<rparr>,
                 sends = [], state_after = s\<rparr>
            | Some r \<Rightarrow>
                (let activityParams =
                       with_mentions (toActivityParams C (message b)) (mentions b);
                     target = target_ref C r (replyToId b)
                 in \<lparr>response = deliver C activityParams target,
                     sends = [(activityParams, target)], state_after = s\<rparr>)))"

text \<open>\<open>GET /api/conversations\<close>: one row per registry entry, in registry order.\<close>

definition api_conversations :: "BotState \<Rightarrow> (string \<times> string option \<times> string) list" where
  "api_conversations s =
     map (\<lambda>(k, r). (k, conversationType (conversation r), serviceUrl r)) (conversationReferences s)"

section \<open>The invariant of the object store\<close>

text \<open>Every address held by \<open>storage\<close> names an object of the heap.\<close>

definition wf_state :: "BotState \<Rightarrow> bool" where
  "wf_state s = list_all (\<lambda>p. snd p < length (heap s)) (storage s)"

text \<open>
  The count a conversation has in the store, if it has a state there; and the count
  that fetch-or-init finds for it (0 when there is none).
\<close>

definition stored_count :: "BotState \<Rightarrow> string \<Rightarrow> nat option" where
  "stored_count s c = map_option (read_count s) (storage_get s c)"

definition current_count :: "BotState \<Rightarrow> string \<Rightarrow> nat" where
  "current_count s c = (case stored_count s c of None \<Rightarrow> 0 | Some n \<Rightarrow> n)"

section \<open>Sample inputs\<close>

text \<open>
  A platform whose mention stripping returns the text carried in \<open>activity_other\<close>,
  and an inbound context for a conversation id and a text.
\<close>

definition sample_platform :: Platform where
  \<open>sample_platform =
     \<lparr>stripMentionsText = activity_other, stringify_activity = activity_other,
      stringify_version = ''"v20.0.0"''\<rparr>\<close>

definition sample_account :: "string \<Rightarrow> ConversationAccount" where
  "sample_account c = \<lparr>conv_id = c, conversationType = Some ''personal'', account_other = []\<rparr>"

definition sample_ref :: "string \<Rightarrow> string \<Rightarrow> ConversationReference" where
  "sample_ref c url = \<lparr>conversation = sample_account c, serviceUrl = url, ref_other = []\<rparr>"

definition sample_context :: "string \<Rightarrow> string \<Rightarrow> string \<Rightarrow> Context" where
  "sample_context c t url =
     \<lparr>activity = \<lparr>activity_conversation = sample_account c, activity_other = t\<rparr>,
      ref = sample_ref c url\<rparr>"

text \<open>
  Two channels: one whose send succeeds with activity id \<open>a1\<close>, one whose send throws
  an error with the given \<open>message\<close> property. Their payload keeps the text of a string
  message. The sample requests put no finite number and no array into a template
  literal; \<open>sample_render\<close> gives the empty text for those.
\<close>

definition sample_render :: "js_value \<Rightarrow> string" where
  "sample_render v =
     (case v of
        JObj _ \<Rightarrow> ''[object Object]''
      | JNum PlusInfinity \<Rightarrow> ''Infinity''
      | JNum MinusInfinity \<Rightarrow> ''-Infinity''
      | JNum NaN \<Rightarrow> ''NaN''
      | _ \<Rightarrow> [])"

definition sample_params :: "js_value \<Rightarrow> ActivityParams" where
  "sample_params v = \<lparr>params_other = (case v of JStr t \<Rightarrow> t | _ \<Rightarrow> []), entities = None\<rparr>"

definition ok_channel :: Channel where
  "ok_channel =
     \<lparr>toActivityParams = sample_params, send = (\<lambda>p r. Inr \<lparr>sent_id = ''a1''\<rparr>),
      render_other = sample_render\<rparr>"

definition failing_channel :: "string option \<Rightarrow> Channel" where
  "failing_channel m =
     \<lparr>toActivityParams = sample_params, send = (\<lambda>p r. Inl \<lparr>err_message = m\<rparr>),
      render_other = sample_render\<rparr>"

definition sample_body :: "js_value \<Rightarrow> js_value \<Rightarrow> js_value \<Rightarrow> NotifyBody" where
  "sample_body c m rid = \<lparr>conversationId = c, message = m, replyToId = rid, mentions = None\<rparr>"

text \<open>A state whose registry holds one reference, for conversation \<open>abc\<close>.\<close>

definition sample_state :: BotState where
  "sample_state =
     \<lparr>heap = [], storage = [],
      conversationReferences = [(''abc'', sample_ref ''abc'' ''https://smba.example/'')]\<rparr>"

text \<open>A state in which conversation \<open>c1\<close> has count 2.\<close>

definition counted_state :: BotState where
  "counted_state =
     \<lparr>heap = [\<lparr>count = 2\<rparr>], storage = [(''c1'', 0)],
      conversationReferences = [(''c1'', sample_ref ''c1'' ''u'')]\<rparr>"

section \<open>Facts about the containers and the object store\<close>

lemma js_get_js_set: "js_get (js_set m k v) k' = (if k' = k then Some v else js_get m k')"
  by (induction m) (auto simp: js_get_def)

lemma js_get_js_delete: "js_get (js_delete m k) k' = (if k' = k then None else js_get m k')"
  by (induction m) (auto simp: js_get_def js_delete_def)

lemma set_js_keys: "set (js_keys m) = {k. js_get m k \<noteq> None}"
  by (induction m) (auto simp: js_keys_def js_get_def)

lemma js_keys_js_set:
  "js_keys (js_set m k v) = (if k \<in> set (js_keys m) then js_keys m else js_keys m @ [k])"
  by (induction m) (force simp: js_keys_def)+

lemma distinct_js_keys_js_set: "distinct (js_keys m) \<Longrightarrow> distinct (js_keys (js_set m k v))"
  by (simp add: js_keys_js_set)

lemma js_set_entries:
  "(k', a) \<in> set (js_set m k v) \<Longrightarrow> (k', a) = (k, v) \<or> (k', a) \<in> set m"
  by (induction m) (auto split: if_splits)

lemma js_get_in_set: "js_get m k = Some a \<Longrightarrow> (k, a) \<in> set m"
  by (simp add: js_get_def map_of_SomeD)

lemma string_of_nat_digit: "n < 10 \<Longrightarrow> string_of_nat n = [''0123456789'' ! n]"
  by (simp add: string_of_nat.simps)

lemma string_of_nat_0: "string_of_nat 0 = ''0''"
  by (simp add: string_of_nat.simps)

lemma wf_initial_state: "wf_state initial_state"
  by (simp add: wf_state_def initial_state_def)

lemma wf_state_addr: "wf_state s \<Longrightarrow> storage_get s c = Some a \<Longrightarrow> a < length (heap s)"
  by (auto simp: wf_state_def storage_get_def list_all_iff dest!: js_get_in_set)

lemma getConversationState_present:
  "storage_get s c = Some a \<Longrightarrow> getConversationState c s = (a, s)"
  by (simp add: getConversationState_def)

lemma getConversationState_absent:
  "storage_get s c = None \<Longrightarrow>
   getConversationState c s =
     (length (heap s),
      s\<lparr>heap := heap s @ [\<lparr>count = 0\<rparr>], storage := js_set (storage s) c (length (heap s))\<rparr>)"
  by (simp add: getConversationState_def storage_set_def Let_def)

lemma getConversationState_stored:
  "getConversationState c s = (a, s') \<Longrightarrow> storage_get s' c = Some a"
  by (auto simp: getConversationState_def storage_set_def storage_get_def Let_def js_get_js_set
           split: option.splits)

lemma getConversationState_count:
  "getConversationState c s = (a, s') \<Longrightarrow> read_count s' a = current_count s c"
  by (auto simp: getConversationState_def storage_set_def storage_get_def Let_def
                 read_count_def current_count_def stored_count_def
           split: option.splits)

lemma getConversationState_wf:
  "wf_state s \<Longrightarrow> getConversationState c s = (a, s') \<Longrightarrow> wf_state s' \<and> a < length (heap s')"
  apply (cases "storage_get s c")
   apply (auto simp: getConversationState_absent getConversationState_present wf_state_addr)
  apply (auto simp: wf_state_def list_all_iff dest!: js_set_entries)
  done

lemma getConversationState_refs:
  "getConversationState c s = (a, s') \<Longrightarrow> conversationReferences s' = conversationReferences s"
  by (auto simp: getConversationState_def storage_set_def Let_def split: option.splits)

lemma getConversationState_with_refs:
  "getConversationState c (s\<lparr>conversationReferences := R\<rparr>) =
     (fst (getConversationState c s), (snd (getConversationState c s))\<lparr>conversationReferences := R\<rparr>)"
  by (simp add: getConversationState_def storage_get_def storage_set_def Let_def split: option.splits)

lemma wf_state_refs [simp]: "wf_state (s\<lparr>conversationReferences := R\<rparr>) = wf_state s"
  by (simp add: wf_state_def)

lemma stored_count_refs [simp]: "stored_count (s\<lparr>conversationReferences := R\<rparr>) c = stored_count s c"
  by (cases "storage_get s c") (simp_all add: stored_count_def storage_get_def read_count_def)

lemma current_count_refs [simp]: "current_count (s\<lparr>conversationReferences := R\<rparr>) c = current_count s c"
  by (simp add: current_count_def)

lemma on_message_reset:
  "stripMentionsText P (activity ctx) = ''/reset'' \<Longrightarrow>
   on_message P ctx s =
     ([''Ok I've deleted the current conversation state.''],
      s\<lparr>conversationReferences :=
           js_set (conversationReferences s) (conv_id (activity_conversation (activity ctx))) (ref ctx),
        storage := js_delete (storage s) (conv_id (activity_conversation (activity ctx)))\<rparr>)"
  by (simp add: on_message_def Let_def storage_delete_def)

lemma on_message_count:
  "stripMentionsText P (activity ctx) = ''/count'' \<Longrightarrow>
   getConversationState (conv_id (activity_conversation (activity ctx))) s = (a, s1) \<Longrightarrow>
   on_message P ctx s =
     ([''The count is '' @ string_of_nat (read_count s1 a)],
      s1\<lparr>conversationReferences :=
           js_set (conversationReferences s) (conv_id (activity_conversation (activity ctx))) (ref ctx)\<rparr>)"
  by (simp add: on_message_def Let_def getConversationState_with_refs read_count_def)

lemma on_message_echo:
  "stripMentionsText P (activity ctx) = t \<Longrightarrow>
   t \<notin> {''/reset'', ''/count'', ''/diag'', ''/state'', ''/runtime''} \<Longrightarrow>
   getConversationState (conv_id (activity_conversation (activity ctx))) s = (a, s1) \<Longrightarrow>
   on_message P ctx s =
     ([''['' @ string_of_nat (read_count (increment_count s1 a) a) @ ''] you said: '' @ t],
      (increment_count s1 a)\<lparr>conversationReferences :=
           js_set (conversationReferences s) (conv_id (activity_conversation (activity ctx))) (ref ctx)\<rparr>)"
  by (simp add: on_message_def Let_def getConversationState_with_refs read_count_def increment_count_def)

lemma read_count_increment:
  "a < length (heap s) \<Longrightarrow> read_count (increment_count s a) a = read_count s a + 1"
  by (simp add: read_count_def increment_count_def)

lemma storage_get_increment [simp]: "storage_get (increment_count s a) c = storage_get s c"
  by (simp add: storage_get_def increment_count_def)

lemma wf_state_increment [simp]: "wf_state (increment_count s a) = wf_state s"
  by (simp add: wf_state_def increment_count_def)

lemma on_message_echo_count:
  assumes wf: "wf_state s"
      and c: "conv_id (activity_conversation (activity ctx)) = c"
      and t: "stripMentionsText P (activity ctx) = t"
      and nocmd: "t \<notin> {''/reset'', ''/count'', ''/diag'', ''/state'', ''/runtime''}"
      and run: "on_message P ctx s = (replies, s')"
  shows "stored_count s' c = Some (current_count s c + 1) \<and>
         replies = [''['' @ string_of_nat (current_count s c + 1) @ ''] you said: '' @ t]"
proof -
  obtain a s1 where g: "getConversationState c s = (a, s1)"
    by (cases "getConversationState c s")
  have a: "a < length (heap s1)" and st: "storage_get s1 c = Some a"
    and cnt: "read_count s1 a = current_count s c"
    using getConversationState_wf [OF wf g] getConversationState_stored [OF g]
      getConversationState_count [OF g] by simp_all
  have "on_message P ctx s =
     ([''['' @ string_of_nat (read_count (increment_count s1 a) a) @ ''] you said: '' @ t],
      (increment_count s1 a)\<lparr>conversationReferences :=
           js_set (conversationReferences s) c (ref ctx)\<rparr>)"
    using on_message_echo [OF t nocmd] g c by simp
  with run have r: "replies = [''['' @ string_of_nat (read_count (increment_count s1 a) a) @ ''] you said: '' @ t]"
    and s': "s' = (increment_count s1 a)\<lparr>conversationReferences := js_set (conversationReferences s) c (ref ctx)\<rparr>"
    by simp_all
  have "stored_count s' c = stored_count (increment_count s1 a) c"
    by (simp add: s')
  then have "stored_count s' c = Some (read_count (increment_count s1 a) a)"
    by (simp add: stored_count_def st)
  then show ?thesis
    by (simp add: r read_count_increment [OF a] cnt)
qed

section \<open>The message dispatcher\<close>

text \<open>
  C3. An inbound message whose mention-stripped text is none of \<open>/reset\<close>, \<open>/count\<close>,
  \<open>/diag\<close>, \<open>/state\<close>, \<open>/runtime\<close> fetches or initialises the state of its
  conversation, leaves it with a count that is exactly one more than the count found
  (0 when there was no state), and replies with \<open>[<new count>] you said: <text>\<close>.
\<close>

theorem echo_increments_count:
  assumes "wf_state s"
      and "conv_id (activity_conversation (activity ctx)) = c"
      and "stripMentionsText P (activity ctx) = t"
      and "t \<notin> {''/reset'', ''/count'', ''/diag'', ''/state'', ''/runtime''}"
      and "on_message P ctx s = (replies, s')"
  shows "stored_count s' c = Some (current_count s c + 1) \<and>
         replies = [''['' @ string_of_nat (current_count s c + 1) @ ''] you said: '' @ t]"
  using assms by (rule on_message_echo_count)

theorem echo_increments_count_witness:
  "fst (on_message sample_platform (sample_context ''c1'' ''hello'' ''u'')
         (snd (on_message sample_platform (sample_context ''c1'' ''hello'' ''u'') initial_state)))
     = [''[2] you said: hello'']
   \<and> stored_count
         (snd (on_message sample_platform (sample_context ''c1'' ''hello'' ''u'')
           (snd (on_message sample_platform (sample_context ''c1'' ''hello'' ''u'') initial_state))))
         ''c1'' = Some 2"
proof -
  let ?ctx = "sample_context ''c1'' ''hello'' ''u''"
  let ?s1 = "snd (on_message sample_platform ?ctx initial_state)"
  have s1: "?s1 = \<lparr>heap = [\<lparr>count = 1\<rparr>], storage = [(''c1'', 0)],
                   conversationReferences = [(''c1'', sample_ref ''c1'' ''u'')]\<rparr>"
    by (simp add: on_message_def sample_platform_def sample_context_def sample_account_def
        initial_state_def getConversationState_def storage_get_def storage_set_def js_get_def Let_def
        increment_count_def)
  have wf: "wf_state ?s1" by (simp add: s1 wf_state_def)
  have c: "conv_id (activity_conversation (activity ?ctx)) = ''c1''"
    by (simp add: sample_context_def sample_account_def)
  have t: "stripMentionsText sample_platform (activity ?ctx) = ''hello''"
    by (simp add: sample_platform_def sample_context_def)
  have n: "''hello'' \<notin> {''/reset'', ''/count'', ''/diag'', ''/state'', ''/runtime''}" by simp
  have cc: "current_count ?s1 ''c1'' = 1"
    by (simp add: s1 current_count_def stored_count_def storage_get_def js_get_def read_count_def)
  show ?thesis
    using echo_increments_count [OF wf c t n surjective_pairing]
    by (simp add: cc string_of_nat.simps)
qed

text \<open>
  C5. For every conversation and every prior state, handling \<open>/reset\<close> deletes the
  state of that conversation, changes no counter (the objects of the heap and the
  entries of every other conversation stay as they were) and replies with the
  confirmation text; a \<open>/count\<close> handled right after it for the same conversation
  reports count 0.
\<close>

theorem reset_then_count_is_zero:
  assumes c1: "conv_id (activity_conversation (activity ctx1)) = c"
      and c2: "conv_id (activity_conversation (activity ctx2)) = c"
      and t1: "stripMentionsText P (activity ctx1) = ''/reset''"
      and t2: "stripMentionsText P (activity ctx2) = ''/count''"
      and run1: "on_message P ctx1 s = (replies1, s1)"
      and run2: "on_message P ctx2 s1 = (replies2, s2)"
  shows "storage_get s1 c = None \<and> heap s1 = heap s \<and>
         (\<forall>k. storage_get s1 k = (if k = c then None else storage_get s k)) \<and>
         replies1 = [''Ok I've deleted the current conversation state.''] \<and>
         replies2 = [''The count is 0'']"
proof -
  from run1 on_message_reset [OF t1, of s] c1
  have r1: "replies1 = [''Ok I've deleted the current conversation state.'']"
    and s1: "s1 = s\<lparr>conversationReferences := js_set (conversationReferences s) c (ref ctx1),
                     storage := js_delete (storage s) c\<rparr>"
    by simp_all
  have gone: "\<forall>k. storage_get s1 k = (if k = c then None else storage_get s k)"
    by (simp add: s1 storage_get_def js_get_js_delete)
  then have none: "storage_get s1 c = None" by simp
  have g: "getConversationState c s1 =
     (length (heap s1),
      s1\<lparr>heap := heap s1 @ [\<lparr>count = 0\<rparr>], storage := js_set (storage s1) c (length (heap s1))\<rparr>)"
    by (rule getConversationState_absent [OF none])
  have "replies2 = [''The count is '' @ string_of_nat
          (read_count (s1\<lparr>heap := heap s1 @ [\<lparr>count = 0\<rparr>],
                          storage := js_set (storage s1) c (length (heap s1))\<rparr>) (length (heap s1)))]"
    using run2 on_message_count [OF t2, of s1] g c2 by simp
  then have r2: "replies2 = [''The count is 0'']"
    by (simp add: read_count_def string_of_nat_0)
  show ?thesis using none gone r1 r2 by (simp add: s1)
qed

theorem reset_then_count_is_zero_witness:
  "stored_count counted_state ''c1'' = Some 2 \<and>
   fst (on_message sample_platform (sample_context ''c1'' ''/reset'' ''u'') counted_state)
     = [''Ok I've deleted the current conversation state.''] \<and>
   fst (on_message sample_platform (sample_context ''c1'' ''/count'' ''u'')
         (snd (on_message sample_platform (sample_context ''c1'' ''/reset'' ''u'') counted_state)))
     = [''The count is 0'']"
proof -
  let ?ctx1 = "sample_context ''c1'' ''/reset'' ''u''"
  let ?ctx2 = "sample_context ''c1'' ''/count'' ''u''"
  have c1: "conv_id (activity_conversation (activity ?ctx1)) = ''c1''"
    and c2: "conv_id (activity_conversation (activity ?ctx2)) = ''c1''"
    by (simp_all add: sample_context_def sample_account_def)
  have t1: "stripMentionsText sample_platform (activity ?ctx1) = ''/reset''"
    and t2: "stripMentionsText sample_platform (activity ?ctx2) = ''/count''"
    by (simp_all add: sample_platform_def sample_context_def)
  have pre: "stored_count counted_state ''c1'' = Some 2"
    by (simp add: counted_state_def stored_count_def storage_get_def js_get_def read_count_def)
  show ?thesis
    using reset_then_count_is_zero [OF c1 c2 t1 t2 surjective_pairing surjective_pairing, of counted_state]
      pre by simp
qed

lemma stored_count_getConversationState_other:
  assumes wf: "wf_state s" and g: "getConversationState c s = (a, s1)" and k: "k \<noteq> c"
  shows "stored_count s1 k = stored_count s k"
proof (cases "storage_get s c")
  case (Some b)
  with g show ?thesis by (simp add: getConversationState_present)
next
  case None
  with g have s1: "s1 = s\<lparr>heap := heap s @ [\<lparr>count = 0\<rparr>],
                           storage := js_set (storage s) c (length (heap s))\<rparr>"
    by (auto simp: getConversationState_absent)
  have get: "storage_get s1 k = storage_get s k"
    using k by (simp add: s1 storage_get_def js_get_js_set)
  show ?thesis
  proof (cases "storage_get s k")
    case None
    with get show ?thesis by (simp add: stored_count_def)
  next
    case (Some b)
    then have "b < length (heap s)" using wf by (rule wf_state_addr [rotated])
    then have "read_count s1 b = read_count s b"
      by (simp add: s1 read_count_def nth_append)
    with get Some show ?thesis by (simp add: stored_count_def)
  qed
qed

text \<open>
  C4, as amended. Handling \<open>/count\<close> replies with the current count of the conversation
  (0 when it has no state) and changes no stored count. When the conversation already
  has a state, the heap and the storage are identical before and after. When it has
  none, fetch-or-init stores a new state with count 0 for it: the stored identifiers
  are then the old ones and this conversation.
\<close>

theorem count_command_keeps_counts:
  assumes wf: "wf_state s"
      and c: "conv_id (activity_conversation (activity ctx)) = c"
      and t: "stripMentionsText P (activity ctx) = ''/count''"
      and run: "on_message P ctx s = (replies, s')"
  shows "replies = [''The count is '' @ string_of_nat (current_count s c)] \<and>
         stored_count s' c = Some (current_count s c) \<and>
         (\<forall>k. k \<noteq> c \<longrightarrow> stored_count s' k = stored_count s k) \<and>
         (stored_count s c \<noteq> None \<longrightarrow> heap s' = heap s \<and> storage s' = storage s) \<and>
         set (js_keys (storage s')) = insert c (set (js_keys (storage s)))"
proof -
  obtain a s1 where g: "getConversationState c s = (a, s1)"
    by (cases "getConversationState c s")
  from run on_message_count [OF t, of s a s1] g c
  have r: "replies = [''The count is '' @ string_of_nat (read_count s1 a)]"
    and s': "s' = s1\<lparr>conversationReferences := js_set (conversationReferences s) c (ref ctx)\<rparr>"
    by simp_all
  have cnt: "read_count s1 a = current_count s c"
    by (rule getConversationState_count [OF g])
  have st: "storage_get s1 c = Some a"
    by (rule getConversationState_stored [OF g])
  have 1: "replies = [''The count is '' @ string_of_nat (current_count s c)]"
    by (simp add: r cnt)
  have "stored_count s1 c = Some (current_count s c)"
    by (simp add: stored_count_def st cnt)
  then have 2: "stored_count s' c = Some (current_count s c)"
    by (simp add: s')
  have 3: "\<forall>k. k \<noteq> c \<longrightarrow> stored_count s' k = stored_count s k"
    using stored_count_getConversationState_other [OF wf g] by (simp add: s')
  have 4: "stored_count s c \<noteq> None \<longrightarrow> heap s' = heap s \<and> storage s' = storage s"
  proof
    assume "stored_count s c \<noteq> None"
    then obtain b where "storage_get s c = Some b"
      by (auto simp: stored_count_def)
    with g have "s1 = s" by (simp add: getConversationState_present)
    then show "heap s' = heap s \<and> storage s' = storage s" by (simp add: s')
  qed
  have 5: "set (js_keys (storage s')) = insert c (set (js_keys (storage s)))"
  proof (cases "storage_get s c")
    case None
    then have "c \<notin> set (js_keys (storage s))"
      by (simp add: set_js_keys storage_get_def)
    with g None show ?thesis
      by (auto simp: s' getConversationState_absent js_keys_js_set)
  next
    case (Some b)
    then have "c \<in> set (js_keys (storage s))"
      by (simp add: set_js_keys storage_get_def)
    with g Some show ?thesis
      by (auto simp: s' getConversationState_present)
  qed
  from 1 2 3 4 5 show ?thesis by blast
qed

theorem count_command_keeps_counts_witness:
  "stored_count counted_state ''c1'' \<noteq> None \<and> ''c2'' \<noteq> ''c1'' \<and>
   fst (on_message sample_platform (sample_context ''c1'' ''/count'' ''u'') counted_state)
     = [''The count is 2''] \<and>
   heap (snd (on_message sample_platform (sample_context ''c1'' ''/count'' ''u'') counted_state))
     = heap counted_state \<and>
   storage (snd (on_message sample_platform (sample_context ''c1'' ''/count'' ''u'') counted_state))
     = storage counted_state \<and>
   stored_count (snd (on_message sample_platform (sample_context ''c1'' ''/count'' ''u'') counted_state)) ''c2''
     = stored_count counted_state ''c2''"
proof -
  let ?ctx = "sample_context ''c1'' ''/count'' ''u''"
  have wf: "wf_state counted_state" by (simp add: counted_state_def wf_state_def)
  have c: "conv_id (activity_conversation (activity ?ctx)) = ''c1''"
    by (simp add: sample_context_def sample_account_def)
  have t: "stripMentionsText sample_platform (activity ?ctx) = ''/count''"
    by (simp add: sample_platform_def sample_context_def)
  have pre: "stored_count counted_state ''c1'' = Some 2"
    by (simp add: counted_state_def stored_count_def storage_get_def js_get_def read_count_def)
  then have cc: "current_count counted_state ''c1'' = 2" by (simp add: current_count_def)
  have two: "string_of_nat 2 = ''2''" by (simp add: string_of_nat.simps)
  show ?thesis
    using count_command_keeps_counts [OF wf c t surjective_pairing] pre
    by (simp add: cc two)
qed

text \<open>
  C4 as stated fails on a conversation without a state: \<open>/count\<close> in the initial
  state adds the identifier \<open>c1\<close> to the storage.
\<close>

theorem count_command_store_identical_counterexample:
  "stripMentionsText sample_platform (activity (sample_context ''c1'' ''/count'' ''u'')) = ''/count'' \<and>
   js_keys (storage initial_state) = [] \<and>
   js_keys (storage (snd (on_message sample_platform (sample_context ''c1'' ''/count'' ''u'') initial_state)))
     = [''c1''] \<and>
   storage (snd (on_message sample_platform (sample_context ''c1'' ''/count'' ''u'') initial_state))
     \<noteq> storage initial_state"
  by (simp add: on_message_def sample_platform_def sample_context_def sample_account_def
      initial_state_def getConversationState_def storage_get_def storage_set_def js_get_def
      js_keys_def Let_def)

lemma on_message_count_reply:
  assumes c: "conv_id (activity_conversation (activity ctx)) = c"
      and t: "stripMentionsText P (activity ctx) = ''/count''"
      and run: "on_message P ctx s = (replies, s')"
  shows "replies = [''The count is '' @ string_of_nat (current_count s c)]"
proof -
  obtain a s1 where g: "getConversationState c s = (a, s1)"
    by (cases "getConversationState c s")
  from run on_message_count [OF t, of s a s1] g c
  have "replies = [''The count is '' @ string_of_nat (read_count s1 a)]" by simp
  then show ?thesis by (simp add: getConversationState_count [OF g])
qed

text \<open>
  C9. \<open>getConversationState\<close> returns the address that the storage holds for the
  conversation; the default handler increments the count of the object at that address
  in place, and the storage after the handler is the storage right after
  \<open>getConversationState\<close> (no write to it follows the increment). So an echo message
  followed by \<open>/count\<close> for the same conversation reports the incremented count.
\<close>

theorem echo_mutates_stored_object:
  assumes wf: "wf_state s"
      and c1: "conv_id (activity_conversation (activity ctx1)) = c"
      and c2: "conv_id (activity_conversation (activity ctx2)) = c"
      and t1: "stripMentionsText P (activity ctx1) = t"
      and nocmd: "t \<notin> {''/reset'', ''/count'', ''/diag'', ''/state'', ''/runtime''}"
      and t2: "stripMentionsText P (activity ctx2) = ''/count''"
      and g: "getConversationState c s = (a, s1)"
      and run1: "on_message P ctx1 s = (replies1, s')"
      and run2: "on_message P ctx2 s' = (replies2, s'')"
  shows "storage_get s1 c = Some a \<and>
         heap s' = (heap s1)[a := (heap s1 ! a)\<lparr>count := read_count s1 a + 1\<rparr>] \<and>
         storage s' = storage s1 \<and>
         replies1 = [''['' @ string_of_nat (current_count s c + 1) @ ''] you said: '' @ t] \<and>
         replies2 = [''The count is '' @ string_of_nat (current_count s c + 1)]"
proof -
  have st: "storage_get s1 c = Some a"
    by (rule getConversationState_stored [OF g])
  from run1 on_message_echo [OF t1 nocmd, of s a s1] g c1
  have s': "s' = (increment_count s1 a)\<lparr>conversationReferences :=
                    js_set (conversationReferences s) c (ref ctx1)\<rparr>"
    by simp
  have hp: "heap s' = (heap s1)[a := (heap s1 ! a)\<lparr>count := read_count s1 a + 1\<rparr>]"
    by (simp add: s' increment_count_def read_count_def)
  have sto: "storage s' = storage s1"
    by (simp add: s' increment_count_def)
  from on_message_echo_count [OF wf c1 t1 nocmd run1]
  have cnt: "stored_count s' c = Some (current_count s c + 1)"
    and r1: "replies1 = [''['' @ string_of_nat (current_count s c + 1) @ ''] you said: '' @ t]"
    by simp_all
  from on_message_count_reply [OF c2 t2 run2]
  have "replies2 = [''The count is '' @ string_of_nat (current_count s' c)]" by simp
  then have r2: "replies2 = [''The count is '' @ string_of_nat (current_count s c + 1)]"
    by (simp add: current_count_def cnt)
  from st hp sto r1 r2 show ?thesis by simp
qed

theorem echo_mutates_stored_object_witness:
  "getConversationState ''c1'' initial_state
     = (0, \<lparr>heap = [\<lparr>count = 0\<rparr>], storage = [(''c1'', 0)], conversationReferences = []\<rparr>) \<and>
   heap (snd (on_message sample_platform (sample_context ''c1'' ''hello'' ''u'') initial_state))
     = [\<lparr>count = 1\<rparr>] \<and>
   storage (snd (on_message sample_platform (sample_context ''c1'' ''hello'' ''u'') initial_state))
     = [(''c1'', 0)] \<and>
   fst (on_message sample_platform (sample_context ''c1'' ''hello'' ''u'') initial_state)
     = [''[1] you said: hello''] \<and>
   fst (on_message sample_platform (sample_context ''c1'' ''/count'' ''u'')
         (snd (on_message sample_platform (sample_context ''c1'' ''hello'' ''u'') initial_state)))
     = [''The count is 1'']"
proof -
  let ?ctx1 = "sample_context ''c1'' ''hello'' ''u''"
  let ?ctx2 = "sample_context ''c1'' ''/count'' ''u''"
  have c1: "conv_id (activity_conversation (activity ?ctx1)) = ''c1''"
    and c2: "conv_id (activity_conversation (activity ?ctx2)) = ''c1''"
    by (simp_all add: sample_context_def sample_account_def)
  have t1: "stripMentionsText sample_platform (activity ?ctx1) = ''hello''"
    and t2: "stripMentionsText sample_platform (activity ?ctx2) = ''/count''"
    by (simp_all add: sample_platform_def sample_context_def)
  have n: "''hello'' \<notin> {''/reset'', ''/count'', ''/diag'', ''/state'', ''/runtime''}" by simp
  have g: "getConversationState ''c1'' initial_state
     = (0, \<lparr>heap = [\<lparr>count = 0\<rparr>], storage = [(''c1'', 0)], conversationReferences = []\<rparr>)"
    by (simp add: getConversationState_def initial_state_def storage_get_def storage_set_def
        js_get_def Let_def)
  have cc: "current_count initial_state ''c1'' = 0"
    by (simp add: current_count_def stored_count_def storage_get_def js_get_def initial_state_def)
  have one: "string_of_nat (Suc 0) = ''1''" by (simp add: string_of_nat.simps)
  show ?thesis
    using echo_mutates_stored_object
      [OF wf_initial_state c1 c2 t1 n t2 g surjective_pairing surjective_pairing] g
    by (simp add: cc one read_count_def)
qed

section \<open>The conversation reference registry\<close>

lemma on_message_refs:
  "conversationReferences (snd (on_message P ctx s)) =
     js_set (conversationReferences s) (conv_id (activity_conversation (activity ctx))) (ref ctx)"
  by (simp add: on_message_def Let_def storage_delete_def getConversationState_with_refs
      increment_count_def split: prod.splits)

lemma handle_event_refs:
  "conversationReferences (snd (handle_event P e s)) =
     js_set (conversationReferences s) (event_conversation e) (event_ref e)"
  by (cases e) (simp_all add: on_install_add_def on_message_refs)

lemma run_append: "run P (es @ es') s = run P es' (run P es s)"
  by (induction es arbitrary: s) simp_all

lemma run_other_conversations:
  "\<forall>e \<in> set es. event_conversation e \<noteq> c \<Longrightarrow>
   js_get (conversationReferences (run P es s)) c = js_get (conversationReferences s) c"
  by (induction es arbitrary: s) (auto simp: handle_event_refs js_get_js_set)

lemma wf_state_js_delete:
  "wf_state s \<Longrightarrow> wf_state (s\<lparr>storage := js_delete (storage s) c\<rparr>)"
  by (simp add: wf_state_def js_delete_def list_all_iff)

lemma on_message_wf: "wf_state s \<Longrightarrow> wf_state (snd (on_message P ctx s))"
proof -
  assume wf: "wf_state s"
  let ?c = "conv_id (activity_conversation (activity ctx))"
  let ?s = "s\<lparr>conversationReferences := js_set (conversationReferences s) ?c (ref ctx)\<rparr>"
  have wf0: "wf_state ?s" using wf by simp
  obtain a s1 where g: "getConversationState ?c ?s = (a, s1)"
    by (cases "getConversationState ?c ?s")
  have wf1: "wf_state s1" using getConversationState_wf [OF wf0 g] by simp
  have wfd: "wf_state (storage_delete ?s ?c)"
    using wf_state_js_delete [OF wf0] by (simp add: storage_delete_def)
  show ?thesis
    using wf0 wf1 wfd g by (simp add: on_message_def Let_def)
qed

lemma handle_event_wf: "wf_state s \<Longrightarrow> wf_state (snd (handle_event P e s))"
  by (cases e) (simp_all add: on_install_add_def on_message_wf)

lemma run_wf: "wf_state s \<Longrightarrow> wf_state (run P es s)"
  by (induction es arbitrary: s) (simp_all add: handle_event_wf)

lemma reachable_wf: "wf_state (run P es initial_state)"
  by (rule run_wf [OF wf_initial_state])

lemma run_distinct_keys:
  "distinct (js_keys (conversationReferences s)) \<Longrightarrow>
   distinct (js_keys (conversationReferences (run P es s)))"
  by (induction es arbitrary: s) (simp_all add: handle_event_refs distinct_js_keys_js_set)

lemma reachable_distinct_keys:
  "distinct (js_keys (conversationReferences (run P es initial_state)))"
  by (rule run_distinct_keys) (simp add: initial_state_def js_keys_def)

text \<open>The two sample states are reached from the initial state by inbound events.\<close>

lemma sample_state_reachable:
  "run sample_platform [InstallAdd (sample_context ''abc'' [] ''https://smba.example/'')] initial_state
     = sample_state"
  by (simp add: on_install_add_def sample_context_def sample_account_def initial_state_def
      sample_state_def)

lemma counted_state_reachable:
  "run sample_platform
     [Message (sample_context ''c1'' ''hello'' ''u''), Message (sample_context ''c1'' ''hi'' ''u'')]
     initial_state = counted_state"
  by (simp add: on_message_def sample_platform_def sample_context_def sample_account_def
      initial_state_def counted_state_def getConversationState_def storage_get_def
      storage_set_def js_get_def Let_def increment_count_def)

text \<open>
  C2. After any sequence of inbound events (install or message) that holds an event
  for conversation \<open>c\<close>, the registry has an entry for \<open>c\<close> and it is the reference
  carried by the latest event for \<open>c\<close>: every event overwrites the entry of its own
  conversation, whatever the entry was and whatever the text of the message is.
\<close>

theorem registry_holds_latest_ref:
  assumes "event_conversation e = c"
      and "\<forall>e' \<in> set later. event_conversation e' \<noteq> c"
  shows "js_get (conversationReferences (run P (earlier @ e # later) s)) c = Some (event_ref e)"
proof -
  have "run P (earlier @ e # later) s = run P later (snd (handle_event P e (run P earlier s)))"
    by (simp add: run_append)
  then show ?thesis
    using assms by (simp add: run_other_conversations handle_event_refs js_get_js_set)
qed

theorem registry_holds_latest_ref_witness:
  "js_get (conversationReferences
     (run sample_platform
        [Message (sample_context ''c1'' ''hello'' ''u1''),
         InstallAdd (sample_context ''c1'' [] ''u2''),
         Message (sample_context ''c2'' ''/count'' ''u3'')]
        initial_state)) ''c1''
   = Some (sample_ref ''c1'' ''u2'')"
proof -
  let ?e = "InstallAdd (sample_context ''c1'' [] ''u2'')"
  let ?later = "[Message (sample_context ''c2'' ''/count'' ''u3'')]"
  have c: "event_conversation ?e = ''c1''"
    by (simp add: sample_context_def sample_account_def)
  have l: "\<forall>e' \<in> set ?later. event_conversation e' \<noteq> ''c1''"
    by (simp add: sample_context_def sample_account_def)
  show ?thesis
    using registry_holds_latest_ref [OF c l, of sample_platform
        "[Message (sample_context ''c1'' ''hello'' ''u1'')]" initial_state]
    by (simp add: sample_context_def)
qed

section \<open>The proactive notifier\<close>

lemma js_truthy_iff: "js_truthy v \<longleftrightarrow> v \<notin> falsy_values"
  by (cases v) (auto simp: js_truthy_def falsy_values_def split: js_number.splits)

lemma js_get_any_JStr [simp]: "js_get_any m (JStr k) = js_get m k"
  by (simp add: js_get_any_def)

lemma js_get_any_None_iff:
  "js_get_any m key = None \<longleftrightarrow> (\<forall>k. key = JStr k \<longrightarrow> js_get m k = None)"
  by (cases key) (simp_all add: js_get_any_def)

lemma template_string_JStr [simp]: "template_string C (JStr s) = s"
  by (simp add: template_string_def)

lemma api_notify_rejected:
  "conversationId b \<in> falsy_values \<or> message b \<in> falsy_values \<Longrightarrow>
   api_notify C (Some b) s =
     \<lparr>response = \<lparr>status = 400, body = ErrorBody ''conversationId and message are required''\<rparr>,
      sends = [], state_after = s\<rparr>"
  by (auto simp: api_notify_def js_truthy_iff)

lemma api_notify_no_body:
  "api_notify C None s =
     \<lparr>response = \<lparr>status = 400, body = ErrorBody ''conversationId and message are required''\<rparr>,
      sends = [], state_after = s\<rparr>"
  by (simp add: api_notify_def empty_body_def js_truthy_def)

lemma api_notify_not_found:
  "conversationId b \<notin> falsy_values \<Longrightarrow> message b \<notin> falsy_values \<Longrightarrow>
   \<forall>cid. conversationId b = JStr cid \<longrightarrow> js_get (conversationReferences s) cid = None \<Longrightarrow>
   api_notify C (Some b) s =
     \<lparr>response =
        \<lparr>status = 404,
         body = NotFoundBody
           ''Conversation not found. The bot must receive a message from this conversation first.''
           (js_keys (conversationReferences s))\<rparr>,
      sends = [], state_after = s\<rparr>"
  by (simp add: api_notify_def js_truthy_iff js_get_any_None_iff [symmetric])


lemma api_notify_state: "state_after (api_notify C req s) = s"
  by (simp add: api_notify_def Let_def split: option.splits)

lemma api_notify_sends_cases:
  "sends (api_notify C req s) = [] \<or>
   (\<exists>p target. sends (api_notify C req s) = [(p, target)] \<and>
                response (api_notify C req s) = deliver C p target)"
  by (simp add: api_notify_def Let_def split: option.splits)



lemma deliver_failure_without_message:
  "send C p target = Inl err \<Longrightarrow> err_message err = None \<or> err_message err = Some [] \<Longrightarrow>
   deliver C p target = \<lparr>status = 500, body = ErrorBody ''Failed to send message''\<rparr>"
  by (auto simp: deliver_def truthy_def)


lemma target_ref_plain: "rid \<in> falsy_values \<Longrightarrow> target_ref C r rid = r"
  by (simp add: target_ref_def js_truthy_iff)

text \<open>
  C8. \<open>POST /api/notify\<close> answers 400 and sends nothing when \<open>conversationId\<close> or
  \<open>message\<close> is absent (\<open>undefined\<close>), and also when either is present with any falsy
  value: \<open>null\<close>, \<open>false\<close>, the number 0 (\<open>-0\<close> and \<open>NaN\<close> as well) or the empty string.
  The values listed are all the falsy ones (lemma \<open>js_truthy_iff\<close>). A request whose
  message is the empty string is rejected, not sent; so is a request without a body.
\<close>

theorem notify_rejects_falsy_fields:
  assumes "conversationId b \<in> {JUndefined, JNull, JBool False, JNum (Finite 0), JNum NaN, JStr []} \<or>
           message b \<in> {JUndefined, JNull, JBool False, JNum (Finite 0), JNum NaN, JStr []}"
  shows "response (api_notify C (Some b) s) =
           \<lparr>status = 400, body = ErrorBody ''conversationId and message are required''\<rparr> \<and>
         sends (api_notify C (Some b) s) = [] \<and>
         response (api_notify C None s) =
           \<lparr>status = 400, body = ErrorBody ''conversationId and message are required''\<rparr> \<and>
         sends (api_notify C None s) = []"
proof -
  from assms have "conversationId b \<in> falsy_values \<or> message b \<in> falsy_values"
    by (simp add: falsy_values_def)
  then show ?thesis by (simp add: api_notify_rejected api_notify_no_body)
qed

theorem notify_rejects_falsy_fields_witness:
  "js_get (conversationReferences sample_state) ''abc'' \<noteq> None \<and>
   response (api_notify ok_channel (Some (sample_body (JStr ''abc'') (JStr []) JUndefined)) sample_state) =
     \<lparr>status = 400, body = ErrorBody ''conversationId and message are required''\<rparr> \<and>
   sends (api_notify ok_channel (Some (sample_body (JStr ''abc'') (JStr []) JUndefined)) sample_state) = [] \<and>
   response (api_notify ok_channel (Some (sample_body (JStr ''abc'') JUndefined JUndefined)) sample_state) =
     \<lparr>status = 400, body = ErrorBody ''conversationId and message are required''\<rparr> \<and>
   sends (api_notify ok_channel (Some (sample_body (JStr ''abc'') JUndefined JUndefined)) sample_state) = [] \<and>
   response (api_notify ok_channel (Some (sample_body (JStr ''abc'') JNull JUndefined)) sample_state) =
     \<lparr>status = 400, body = ErrorBody ''conversationId and message are required''\<rparr> \<and>
   sends (api_notify ok_channel (Some (sample_body (JStr ''abc'') JNull JUndefined)) sample_state) = [] \<and>
   response (api_notify ok_channel (Some (sample_body (JStr ''abc'') (JBool False) JUndefined)) sample_state) =
     \<lparr>status = 400, body = ErrorBody ''conversationId and message are required''\<rparr> \<and>
   sends (api_notify ok_channel (Some (sample_body (JStr ''abc'') (JBool False) JUndefined)) sample_state) = [] \<and>
   response (api_notify ok_channel (Some (sample_body (JStr ''abc'') (JNum (Finite 0)) JUndefined)) sample_state) =
     \<lparr>status = 400, body = ErrorBody ''conversationId and message are required''\<rparr> \<and>
   sends (api_notify ok_channel (Some (sample_body (JStr ''abc'') (JNum (Finite 0)) JUndefined)) sample_state) = [] \<and>
   response (api_notify ok_channel (Some (sample_body JNull (JStr ''hi'') JUndefined)) sample_state) =
     \<lparr>status = 400, body = ErrorBody ''conversationId and message are required''\<rparr> \<and>
   sends (api_notify ok_channel (Some (sample_body JNull (JStr ''hi'') JUndefined)) sample_state) = []"
proof -
  have h: "conversationId (sample_body c m JUndefined)
             \<in> {JUndefined, JNull, JBool False, JNum (Finite 0), JNum NaN, JStr []} \<or>
           message (sample_body c m JUndefined)
             \<in> {JUndefined, JNull, JBool False, JNum (Finite 0), JNum NaN, JStr []}"
    if "c = JNull \<or> m \<in> {JStr [], JUndefined, JNull, JBool False, JNum (Finite 0)}" for c m
    using that by (auto simp: sample_body_def)
  have g: "js_get (conversationReferences sample_state) ''abc'' \<noteq> None"
    by (simp add: sample_state_def js_get_def)
  show ?thesis
    using g
      notify_rejects_falsy_fields [OF h, of "JStr ''abc''" "JStr []" ok_channel sample_state]
      notify_rejects_falsy_fields [OF h, of "JStr ''abc''" JUndefined ok_channel sample_state]
      notify_rejects_falsy_fields [OF h, of "JStr ''abc''" JNull ok_channel sample_state]
      notify_rejects_falsy_fields [OF h, of "JStr ''abc''" "JBool False" ok_channel sample_state]
      notify_rejects_falsy_fields [OF h, of "JStr ''abc''" "JNum (Finite 0)" ok_channel sample_state]
      notify_rejects_falsy_fields [OF h, of JNull "JStr ''hi''" ok_channel sample_state]
    by simp
qed

text \<open>
  C6, as amended. For every \<open>POST /api/notify\<close> request that passes validation
  (\<open>conversationId\<close> and \<open>message\<close> both truthy) and whose \<open>conversationId\<close> has no
  entry in the registry, the response is a 404 whose \<open>knownConversations\<close> field lists the
  keys of the registry, which are exactly the identifiers that have an entry; no send
  is attempted and the state is unchanged.
\<close>

theorem notify_unknown_conversation:
  assumes "conversationId b \<notin> falsy_values" and "message b \<notin> falsy_values"
      and "\<forall>cid. conversationId b = JStr cid \<longrightarrow> js_get (conversationReferences s) cid = None"
  shows "response (api_notify C (Some b) s) =
           \<lparr>status = 404,
            body = NotFoundBody
              ''Conversation not found. The bot must receive a message from this conversation first.''
              (js_keys (conversationReferences s))\<rparr> \<and>
         set (js_keys (conversationReferences s)) = {k. js_get (conversationReferences s) k \<noteq> None} \<and>
         sends (api_notify C (Some b) s) = [] \<and>
         state_after (api_notify C (Some b) s) = s"
  using assms by (simp add: api_notify_not_found set_js_keys)

theorem notify_unknown_conversation_witness:
  "response (api_notify ok_channel (Some (sample_body (JStr ''zzz'') (JStr ''hi'') JUndefined)) sample_state) =
     \<lparr>status = 404,
      body = NotFoundBody
        ''Conversation not found. The bot must receive a message from this conversation first.''
        [''abc'']\<rparr> \<and>
   sends (api_notify ok_channel (Some (sample_body (JStr ''zzz'') (JStr ''hi'') JUndefined)) sample_state) = []"
proof -
  let ?b = "sample_body (JStr ''zzz'') (JStr ''hi'') JUndefined"
  have c: "conversationId ?b \<notin> falsy_values" and m: "message ?b \<notin> falsy_values"
    by (simp_all add: sample_body_def falsy_values_def)
  have g: "\<forall>cid. conversationId ?b = JStr cid \<longrightarrow>
             js_get (conversationReferences sample_state) cid = None"
    by (simp add: sample_body_def sample_state_def js_get_def)
  have k: "js_keys (conversationReferences sample_state) = [''abc'']"
    by (simp add: sample_state_def js_keys_def)
  show ?thesis
    using notify_unknown_conversation [OF c m g, of ok_channel]
    by (simp add: k)
qed

text \<open>
  C6 as stated fails on a request that names an unknown conversation and has no
  message: validation comes first and the response is a 400.
\<close>

theorem notify_unknown_conversation_counterexample:
  "js_get (conversationReferences sample_state) ''zzz'' = None \<and>
   conversationId (sample_body (JStr ''zzz'') JUndefined JUndefined) = JStr ''zzz'' \<and>
   status (response (api_notify ok_channel
     (Some (sample_body (JStr ''zzz'') JUndefined JUndefined)) sample_state)) = 400"
  by (simp add: api_notify_def js_truthy_def sample_body_def sample_state_def js_get_def)







text \<open>
  C10. When the call of the send primitive made by \<open>POST /api/notify\<close> throws an error
  whose \<open>message\<close> property is absent or empty, the response is a 500 whose error field is
  the fixed text \<open>Failed to send message\<close>.
\<close>

theorem notify_failure_fallback_text:
  assumes "sends (api_notify C req s) = [(p, target)]"
      and "send C p target = Inl err"
      and "err_message err = None \<or> err_message err = Some []"
  shows "response (api_notify C req s) =
           \<lparr>status = 500, body = ErrorBody ''Failed to send message''\<rparr>"
proof -
  from api_notify_sends_cases [of C req s] assms(1)
  have "response (api_notify C req s) = deliver C p target" by auto
  then show ?thesis
    using assms(2,3) by (simp add: deliver_failure_without_message)
qed

theorem notify_failure_fallback_text_witness:
  "response (api_notify (failing_channel None)
      (Some (sample_body (JStr ''abc'') (JStr ''hi'') JUndefined)) sample_state)
     = \<lparr>status = 500, body = ErrorBody ''Failed to send message''\<rparr>"
proof -
  let ?C = "failing_channel None"
  let ?r = "sample_ref ''abc'' ''https://smba.example/''"
  have s: "sends (api_notify ?C (Some (sample_body (JStr ''abc'') (JStr ''hi'') JUndefined)) sample_state)
             = [(sample_params (JStr ''hi''), ?r)]"
    by (simp add: api_notify_def js_truthy_def js_get_any_def sample_state_def js_get_def
        sample_body_def target_ref_def with_mentions_def failing_channel_def Let_def)
  have f: "send ?C (sample_params (JStr ''hi'')) ?r = Inl \<lparr>err_message = None\<rparr>"
    by (simp add: failing_channel_def)
  have e: "err_message \<lparr>err_message = None\<rparr> = None \<or> err_message \<lparr>err_message = None\<rparr> = Some []"
    by simp
  show ?thesis by (rule notify_failure_fallback_text [OF s f e])
qed

end
